theory Spec2Isabelle
  imports Main
begin

section \<open>The OAuth2 helpers of \<^verbatim>\<open>vimeo/auth.py\<close>\<close>

text \<open>
  The module has three functions: \<^verbatim>\<open>get_auth_url\<close> builds the consent-page URL,
  \<^verbatim>\<open>get_access_token\<close> exchanges an authorization code for a token and
  \<^verbatim>\<open>get_client_credentials\<close> asks for an application-only token. The last two
  perform one blocking \<^verbatim>\<open>HTTPClient().fetch\<close> each.

  Python byte strings are \<^typ>\<open>string\<close>. A \<^verbatim>\<open>raise\<close> is the \<open>Inl\<close> branch of a
  sum. The effect of \<^verbatim>\<open>fetch\<close> is explicit: every function takes the list of requests
  sent so far and returns it, extended by the requests it has sent itself.
\<close>

subsection \<open>Exceptions\<close>

text \<open>
  The module raises \<^verbatim>\<open>ValueError\<close> in three places, with two kinds of argument: the
  formatted message of line 61, and the \<^verbatim>\<open>response.error\<close> object of lines 104 and
  135, whose type \<open>'e\<close> belongs to the HTTP layer. Subscripting the decoded body with
  \<^verbatim>\<open>['access_token']\<close> raises \<^verbatim>\<open>KeyError\<close> (with the key as argument) on a dict
  without that key and \<^verbatim>\<open>TypeError\<close> on a value that is not a dict; the message of the
  \<^verbatim>\<open>TypeError\<close> is not modelled. \<open>FetchError e\<close> is the error object \<open>e\<close> of a failed
  fetch, raised by the HTTP client as it is (tornado's \<^verbatim>\<open>HTTPError\<close>, or the socket or
  TLS error the client met).
\<close>

datatype 'e arg = Message string | Wrapped 'e

datatype 'e exception = ValueError "'e arg" | KeyError string | TypeError | FetchError 'e

subsection \<open>The values the module handles\<close>

text \<open>
  What \<^verbatim>\<open>json.loads\<close> returns: a dict (an association list read with \<open>map_of\<close>; the
  decoder has already resolved duplicate keys), a list, a string, a number, a boolean or
  \<^verbatim>\<open>None\<close>. A float is kept as its literal, since no arithmetic is done on it.
\<close>

datatype json =
    JDict "(string \<times> json) list"
  | JList "json list"
  | JStr string
  | JInt int
  | JFloat string
  | JBool bool
  | JNull

text \<open>The subscript \<^verbatim>\<open>v[k]\<close> with a string key \<open>k\<close>.\<close>

fun getitem :: "json \<Rightarrow> string \<Rightarrow> 'e exception + json" where
  "getitem (JDict kvs) k = (case map_of kvs k of None \<Rightarrow> Inl (KeyError k) | Some v \<Rightarrow> Inr v)"
| "getitem (JList vs) k = Inl TypeError"
| "getitem (JStr s) k = Inl TypeError"
| "getitem (JInt i) k = Inl TypeError"
| "getitem (JFloat f) k = Inl TypeError"
| "getitem (JBool b) k = Inl TypeError"
| "getitem JNull k = Inl TypeError"

text \<open>
  A value of the \<^verbatim>\<open>payload\<close> dict: the string literals and arguments of lines 92 to 94
  and 122, or the \<^verbatim>\<open>scopes\<close> list that line 127 stores as it is.
\<close>

datatype form_value = Str string | StrList "string list"

text \<open>
  The arguments of \<^verbatim>\<open>fetch\<close>; \<open>http_method\<close> is the keyword \<^verbatim>\<open>method\<close>, and
  \<open>validate_cert\<close> is \<open>None\<close> when the call does not pass the keyword. The response is
  read through its \<^verbatim>\<open>error\<close> and \<^verbatim>\<open>body\<close> attributes only.
\<close>

record request =
  url :: string
  http_method :: string
  headers :: "string \<rightharpoonup> string"
  body :: string
  validate_cert :: "bool option"

record 'e response =
  error :: "'e option"
  response_body :: string

text \<open>
  What the module calls and does not define is a parameter of the model:
  \<^verbatim>\<open>base64.b64encode\<close>, \<^verbatim>\<open>urllib.urlencode\<close> (on a dict), \<^verbatim>\<open>json.loads\<close> (which may
  raise), the response that the HTTP layer builds for a request (\<open>fetch_impl\<close>, whose
  \<^verbatim>\<open>error\<close> is \<open>None\<close> after a successful exchange), and the truth value of an error
  object (\<open>truth\<close>), which is what \<^verbatim>\<open>if response.error:\<close> tests.
\<close>

record 'e library =
  b64encode :: "string \<Rightarrow> string"
  urlencode :: "(string \<rightharpoonup> form_value) \<Rightarrow> string"
  loads :: "string \<Rightarrow> 'e exception + json"
  fetch_impl :: "request \<Rightarrow> 'e response"
  truth :: "'e \<Rightarrow> bool"

text \<open>
  \<^verbatim>\<open>HTTPClient().fetch\<close> is tornado's blocking client, and both calls leave its
  \<^verbatim>\<open>raise_error\<close> keyword at the default. That client does not return the response of
  a failed fetch: when \<^verbatim>\<open>response.error\<close> is true it raises that error, and it returns
  the response otherwise.
\<close>

definition fetch :: "'e library \<Rightarrow> request \<Rightarrow> 'e exception + 'e response" where
  "fetch L rq =
     (let response = fetch_impl L rq
      in (case error response of
            Some e \<Rightarrow> if truth L e then Inl (FetchError e) else Inr response
          | None \<Rightarrow> Inr response))"

subsection \<open>\<^verbatim>\<open>get_auth_url\<close>\<close>

definition choices :: "string list" where
  "choices = [''interact'', ''private'', ''public'', ''create'',
              ''edit'', ''delete'', ''upload'']"

text \<open>
  \<^verbatim>\<open>"%s" % xs\<close> for a list of strings that hold no quote, backslash or unprintable
  character (it is applied to \<open>choices\<close> only): the elements in single quotes, separated
  by a comma and a space, in square brackets.
\<close>

fun join_repr :: "string list \<Rightarrow> string" where
  "join_repr [] = []"
| "join_repr [x] = [CHR 0x27] @ x @ [CHR 0x27]"
| "join_repr (x # y # ys) = [CHR 0x27] @ x @ [CHR 0x27] @ '', '' @ join_repr (y # ys)"

definition str_list :: "string list \<Rightarrow> string" where
  "str_list xs = ''['' @ join_repr xs @ '']''"

text \<open>The message of line 61.\<close>

definition scope_message :: "string \<Rightarrow> string" where
  "scope_message scope =
     ''Scope must be one of '' @ str_list choices @ '' (found scope '' @ [CHR 0x27] @ scope
       @ [CHR 0x27] @ '')''"

text \<open>
  The loop of lines 59 to 62 over the scopes that are left, with \<open>auth_url\<close> as built
  so far. The \<^verbatim>\<open>raise\<close> leaves the loop and the function.
\<close>

fun scope_loop :: "string list \<Rightarrow> string \<Rightarrow> 'e exception + string" where
  "scope_loop [] auth_url = Inr auth_url"
| "scope_loop (scope # rest) auth_url =
     (if scope \<notin> set choices then Inl (ValueError (Message (scope_message scope)))
      else scope_loop rest (auth_url @ scope @ ''+''))"

text \<open>
  \<open>scopes\<close> is \<open>None\<close> for Python's \<^verbatim>\<open>None\<close>. \<^verbatim>\<open>not scopes\<close> holds for \<^verbatim>\<open>None\<close> and
  for the empty list.
\<close>

fun get_auth_url ::
  "string \<Rightarrow> string \<Rightarrow> string list option \<Rightarrow> string \<Rightarrow> request list
     \<Rightarrow> ('e exception + string) \<times> request list" where
  "get_auth_url api_root cid scopes redirect sent =
     (let auth_url = api_root @ ''/oauth/authorize?response_type=code&client_id='' @ cid
                       @ ''&scope='';
          scopes = (case scopes of None \<Rightarrow> choices | Some [] \<Rightarrow> choices
                    | Some (s # ss) \<Rightarrow> s # ss)
      in (case scope_loop scopes auth_url of
            Inl e \<Rightarrow> Inl e
          | Inr auth_url \<Rightarrow> Inr (auth_url @ ''&redirect_uri='' @ redirect),
          sent))"

subsection \<open>\<^verbatim>\<open>get_access_token\<close> and \<^verbatim>\<open>get_client_credentials\<close>\<close>

definition default_api_root :: string where
  "default_api_root = ''https://api.vimeo.com''"

definition accept_header :: string where
  "accept_header = ''application/vnd.vimeo.*+json; version=3.2''"

text \<open>
  The request that lines 90 to 102 build and hand to \<^verbatim>\<open>fetch\<close>, and the one of lines
  121 to 132.
\<close>

definition access_token_request ::
  "'e library \<Rightarrow> string \<Rightarrow> string \<Rightarrow> string \<Rightarrow> string \<Rightarrow> string \<Rightarrow> request" where
  "access_token_request L auth_code cid secret redirect api_root =
     (let encoded = b64encode L (cid @ '':'' @ secret);
          payload = [''grant_type'' \<mapsto> Str ''authorization_code'',
                     ''code'' \<mapsto> Str auth_code,
                     ''redirect_uri'' \<mapsto> Str redirect];
          headers = [''Accept'' \<mapsto> accept_header,
                     ''Authorization'' \<mapsto> ''Basic '' @ encoded]
      in \<lparr>url = api_root @ ''/oauth/access_token'',
          http_method = ''POST'',
          headers = headers,
          body = urlencode L payload,
          validate_cert = Some True\<rparr>)"

definition client_credentials_request ::
  "'e library \<Rightarrow> string \<Rightarrow> string \<Rightarrow> string list option \<Rightarrow> string \<Rightarrow> request" where
  "client_credentials_request L client_id client_secret scopes api_root =
     (let basic_auth = b64encode L (client_id @ '':'' @ client_secret);
          payload = [''grant_type'' \<mapsto> Str ''client_credentials''];
          headers = [''Accept'' \<mapsto> accept_header,
                     ''Authorization'' \<mapsto> ''Basic '' @ basic_auth];
          payload = (case scopes of None \<Rightarrow> payload | Some [] \<Rightarrow> payload
                     | Some (s # ss) \<Rightarrow> payload(''scope'' \<mapsto> StrList (s # ss)))
      in \<lparr>url = api_root @ ''/oauth/authorize/client'',
          http_method = ''POST'',
          headers = headers,
          body = urlencode L payload,
          validate_cert = None\<rparr>)"

text \<open>
  An exception of \<^verbatim>\<open>fetch\<close> leaves the function. On a response, line 103 tests the
  truth value of \<^verbatim>\<open>response.error\<close>, and \<^verbatim>\<open>None\<close> is false.
\<close>

fun get_access_token ::
  "'e library \<Rightarrow> string \<Rightarrow> string \<Rightarrow> string \<Rightarrow> string \<Rightarrow> string \<Rightarrow> request list
     \<Rightarrow> ('e exception + json) \<times> request list" where
  "get_access_token L auth_code cid secret redirect api_root sent =
     (let rq = access_token_request L auth_code cid secret redirect api_root
      in (case fetch L rq of
            Inl x \<Rightarrow> Inl x
          | Inr response \<Rightarrow>
              (case error response of
                 Some e \<Rightarrow>
                   if truth L e then Inl (ValueError (Wrapped e))
                   else (case loads L (response_body response) of
                           Inl x \<Rightarrow> Inl x
                         | Inr v \<Rightarrow> getitem v ''access_token'')
               | None \<Rightarrow>
                   (case loads L (response_body response) of
                      Inl x \<Rightarrow> Inl x
                    | Inr v \<Rightarrow> getitem v ''access_token'')),
          sent @ [rq]))"

fun get_client_credentials ::
  "'e library \<Rightarrow> string \<Rightarrow> string \<Rightarrow> string list option \<Rightarrow> string \<Rightarrow> request list
     \<Rightarrow> ('e exception + json) \<times> request list" where
  "get_client_credentials L client_id client_secret scopes api_root sent =
     (let rq = client_credentials_request L client_id client_secret scopes api_root
      in (case fetch L rq of
            Inl x \<Rightarrow> Inl x
          | Inr response \<Rightarrow>
              (case error response of
                 Some e \<Rightarrow>
                   if truth L e then Inl (ValueError (Wrapped e))
                   else (case loads L (response_body response) of
                           Inl x \<Rightarrow> Inl x
                         | Inr v \<Rightarrow> getitem v ''access_token'')
               | None \<Rightarrow>
                   (case loads L (response_body response) of
                      Inl x \<Rightarrow> Inl x
                    | Inr v \<Rightarrow> getitem v ''access_token'')),
          sent @ [rq]))"

subsection \<open>Test doubles\<close>

text \<open>
  A library for the concrete runs below. Its HTTP layer builds the given response for
  every request, and every error object is true. Its decoder knows three bodies and raises the \<^verbatim>\<open>ValueError\<close> of
  Python 2's \<^verbatim>\<open>json\<close> on any other. Its encoders are symbolic: \<open>b64encode\<close> wraps its
  argument in \<open>b64(...)\<close>, and \<open>urlencode\<close> writes the keys that are present in a fixed
  order, without any quoting. The theorems hold for every library; the doubles only give
  them inputs to run on.
\<close>

definition stub_loads :: "string \<Rightarrow> 'e exception + json" where
  \<open>stub_loads b =
     (if b = ''{"access_token": "tok123"}'' then Inr (JDict [(''access_token'', JStr ''tok123'')])
      else if b = ''{"error": "invalid_grant"}'' then Inr (JDict [(''error'', JStr ''invalid_grant'')])
      else if b = ''[]'' then Inr (JList [])
      else Inl (ValueError (Message ''No JSON object could be decoded'')))\<close>

fun stub_value :: "form_value \<Rightarrow> string" where
  "stub_value (Str s) = s"
| "stub_value (StrList xs) = str_list xs"

definition stub_urlencode :: "(string \<rightharpoonup> form_value) \<Rightarrow> string" where
  "stub_urlencode payload =
     drop 1 (concat (map (\<lambda>k. case payload k of None \<Rightarrow> []
                                  | Some v \<Rightarrow> ''&'' @ k @ ''='' @ stub_value v)
                         [''grant_type'', ''code'', ''redirect_uri'', ''scope'']))"

definition stub_library :: "'e response \<Rightarrow> 'e library" where
  "stub_library r =
     \<lparr>b64encode = (\<lambda>s. ''b64('' @ s @ '')''), urlencode = stub_urlencode,
      loads = stub_loads, fetch_impl = (\<lambda>rq. r), truth = (\<lambda>e. True)\<rparr>"

section \<open>Properties\<close>

subsection \<open>Helper facts\<close>

lemma str_list_choices:
  "str_list choices =
     ''['interact', 'private', 'public', 'create', 'edit', 'delete', 'upload']''"
  by (simp add: str_list_def choices_def)

lemma scope_message_literal:
  "scope_message bad =
     ''Scope must be one of ['interact', 'private', 'public', 'create', 'edit', 'delete', 'upload'] (found scope ''
       @ [CHR 0x27] @ bad @ [CHR 0x27] @ '')''"
  by (simp add: scope_message_def str_list_choices)

text \<open>The loop on valid scopes appends each scope and a \<open>+\<close>, in order.\<close>

lemma scope_loop_valid:
  "set xs \<subseteq> set choices \<Longrightarrow>
     scope_loop xs u = Inr (u @ concat (map (\<lambda>s. s @ ''+'') xs))"
  by (induction xs arbitrary: u) simp_all

text \<open>The loop stops at the first scope that is not a choice.\<close>

lemma scope_loop_invalid:
  "List.find (\<lambda>s. s \<notin> set choices) xs = Some bad \<Longrightarrow>
     scope_loop xs u = Inl (ValueError (Message (scope_message bad)))"
  by (induction xs arbitrary: u) (simp_all split: if_splits)

lemma find_invalid:
  "s \<in> set xs \<Longrightarrow> s \<notin> set choices \<Longrightarrow>
     \<exists>bad. List.find (\<lambda>s. s \<notin> set choices) xs = Some bad"
  by (cases "List.find (\<lambda>s. s \<notin> set choices) xs") (auto simp: find_None_iff)

lemma get_auth_url_nonempty:
  "scopes \<noteq> [] \<Longrightarrow>
     get_auth_url api_root cid (Some scopes) redirect sent
       = (case scope_loop scopes
                 (api_root @ ''/oauth/authorize?response_type=code&client_id='' @ cid
                    @ ''&scope='') of
            Inl e \<Rightarrow> Inl e
          | Inr auth_url \<Rightarrow> Inr (auth_url @ ''&redirect_uri='' @ redirect),
          sent)"
  by (cases scopes) (simp_all del: scope_loop.simps)

subsection \<open>The authorization URL\<close>

text \<open>
  C1: when the scopes list holds a value that is not one of the seven choices,
  \<open>get_auth_url\<close> raises the \<^verbatim>\<open>ValueError\<close> of line 61. Its message lists the
  choices and names the first such value of the list. The list of requests sent is
  returned as it was: no request is made.
\<close>

theorem C1_invalid_scope:
  assumes "s \<in> set scopes" and "s \<notin> set choices"
  shows "\<exists>bad. List.find (\<lambda>s. s \<notin> set choices) scopes = Some bad
           \<and> get_auth_url api_root cid (Some scopes) redirect sent
             = (Inl (ValueError (Message
                  (''Scope must be one of ['interact', 'private', 'public', 'create', 'edit', 'delete', 'upload'] (found scope ''
                     @ [CHR 0x27] @ bad @ [CHR 0x27] @ '')''))), sent)"
proof -
  from assms obtain bad where bad: "List.find (\<lambda>s. s \<notin> set choices) scopes = Some bad"
    using find_invalid by blast
  from assms have "scopes \<noteq> []"
    by auto
  then show ?thesis
    using bad
    by (simp add: get_auth_url_nonempty scope_loop_invalid [OF bad] scope_message_literal
          del: get_auth_url.simps)
qed

theorem C1_invalid_scope_witness:
  "get_auth_url ''https://api.vimeo.com'' ''abc'' (Some [''public'', ''admin'', ''root''])
       ''https://app.example.com/cb'' []
     = (Inl (ValueError (Message
          ''Scope must be one of ['interact', 'private', 'public', 'create', 'edit', 'delete', 'upload'] (found scope 'admin')'')),
        [])"
  using C1_invalid_scope [of "''admin''" "[''public'', ''admin'', ''root'']"
      "''https://api.vimeo.com''" "''abc''" "''https://app.example.com/cb''" "[]"]
  by (simp add: choices_def)

text \<open>
  C2: with \<open>scopes\<close> absent (\<^verbatim>\<open>None\<close>) or empty, \<open>get_auth_url\<close> returns what it
  returns for the list of all seven choices, and the scope part of that URL holds all
  seven.
\<close>

theorem C2_default_scopes:
  "get_auth_url api_root cid None redirect sent
     = get_auth_url api_root cid (Some choices) redirect sent
   \<and> get_auth_url api_root cid (Some []) redirect sent
     = get_auth_url api_root cid (Some choices) redirect sent
   \<and> get_auth_url api_root cid (Some choices) redirect sent
     = (Inr (api_root @ ''/oauth/authorize?response_type=code&client_id='' @ cid
              @ ''&scope=interact+private+public+create+edit+delete+upload+&redirect_uri=''
              @ redirect), sent)"
  by (simp add: choices_def)

text \<open>
  C3: for a non-empty list of scopes that are all choices, the URL returned holds
  \<open>scope=\<close>, then the scopes of the list in its order, each followed by \<open>+\<close>, then the
  redirect part.
\<close>

theorem C3_valid_scopes:
  assumes "scopes \<noteq> []" and "set scopes \<subseteq> set choices"
  shows "get_auth_url api_root cid (Some scopes) redirect sent
           = (Inr (api_root @ ''/oauth/authorize?response_type=code&client_id='' @ cid
                    @ ''&scope='' @ concat (map (\<lambda>scope. scope @ ''+'') scopes)
                    @ ''&redirect_uri='' @ redirect), sent)"
  using assms(1)
  by (simp add: get_auth_url_nonempty scope_loop_valid [OF assms(2)]
        del: get_auth_url.simps)

theorem C3_valid_scopes_witness:
  "get_auth_url ''https://api.vimeo.com'' ''abc'' (Some [''upload'', ''public'', ''upload''])
       ''https://app.example.com/cb'' []
     = (Inr ''https://api.vimeo.com/oauth/authorize?response_type=code&client_id=abc&scope=upload+public+upload+&redirect_uri=https://app.example.com/cb'',
        [])"
  using C3_valid_scopes [of "[''upload'', ''public'', ''upload'']"
      "''https://api.vimeo.com''" "''abc''" "''https://app.example.com/cb''" "[]"]
  by (simp add: choices_def)

text \<open>
  C4: for \<open>api_root = "https://api.vimeo.com"\<close>, \<open>client_id = "abc"\<close>,
  \<open>scopes = ["public"]\<close> and \<open>redirect = "https://app.example.com/cb"\<close> the builder
  returns exactly the URL given in the specification.
\<close>

theorem C4_example_url:
  "fst (get_auth_url ''https://api.vimeo.com'' ''abc'' (Some [''public''])
          ''https://app.example.com/cb'' sent)
   = Inr ''https://api.vimeo.com/oauth/authorize?response_type=code&client_id=abc&scope=public+&redirect_uri=https://app.example.com/cb''"
  by (simp add: choices_def)

subsection \<open>The token requests\<close>

text \<open>
  What \<^verbatim>\<open>fetch\<close> does with the response of the HTTP layer, the request each token
  function sends, and its result as a function of the response to that request.
\<close>

lemma fetch_no_error:
  "error (fetch_impl L rq) = None \<Longrightarrow> fetch L rq = Inr (fetch_impl L rq)"
  by (simp add: fetch_def)

lemma fetch_error:
  "error (fetch_impl L rq) = Some e \<Longrightarrow> truth L e \<Longrightarrow> fetch L rq = Inl (FetchError e)"
  by (simp add: fetch_def)

lemma get_access_token_request:
  "snd (get_access_token L auth_code cid secret redirect api_root sent)
     = sent @ [access_token_request L auth_code cid secret redirect api_root]"
  by (simp add: Let_def)

lemma get_client_credentials_request:
  "snd (get_client_credentials L client_id client_secret scopes api_root sent)
     = sent @ [client_credentials_request L client_id client_secret scopes api_root]"
  by (simp add: Let_def)

lemma get_access_token_no_error:
  "error (fetch_impl L (access_token_request L auth_code cid secret redirect api_root)) = None \<Longrightarrow>
     fst (get_access_token L auth_code cid secret redirect api_root sent)
       = (case loads L (response_body
                 (fetch_impl L (access_token_request L auth_code cid secret redirect api_root))) of
            Inl x \<Rightarrow> Inl x
          | Inr v \<Rightarrow> getitem v ''access_token'')"
  by (simp add: Let_def fetch_no_error)

lemma get_access_token_error:
  "error (fetch_impl L (access_token_request L auth_code cid secret redirect api_root)) = Some e \<Longrightarrow>
   truth L e \<Longrightarrow>
     fst (get_access_token L auth_code cid secret redirect api_root sent) = Inl (FetchError e)"
  by (simp add: Let_def fetch_error)



text \<open>
  C5: when the response to the request of \<open>get_access_token\<close> has no error and its body
  decodes to the object whose only field is \<open>access_token\<close> with the string \<open>t\<close>, the
  function returns \<open>t\<close>, having sent that one request.
\<close>

theorem C5_token_returned:
  assumes "error (fetch_impl L (access_token_request L auth_code cid secret redirect api_root))
             = None"
    and "loads L (response_body
            (fetch_impl L (access_token_request L auth_code cid secret redirect api_root)))
           = Inr (JDict [(''access_token'', JStr t)])"
  shows "get_access_token L auth_code cid secret redirect api_root sent
           = (Inr (JStr t),
              sent @ [access_token_request L auth_code cid secret redirect api_root])"
proof -
  have "fst (get_access_token L auth_code cid secret redirect api_root sent) = Inr (JStr t)"
    using assms(2) by (simp add: get_access_token_no_error [OF assms(1)]
        del: get_access_token.simps)
  then show ?thesis
    using get_access_token_request [of L auth_code cid secret redirect api_root sent]
    by (simp add: prod_eq_iff del: get_access_token.simps)
qed

theorem C5_token_returned_witness:
  \<open>fst (get_access_token
          (stub_library \<lparr>error = None :: string option,
                          response_body = ''{"access_token": "tok123"}''\<rparr>)
          ''code123'' ''abc'' ''secret'' ''https://app.example.com/cb'' default_api_root [])
     = Inr (JStr ''tok123'')\<close>
  using C5_token_returned [where t = "''tok123''" and sent = "[]"
      and auth_code = "''code123''" and cid = "''abc''" and secret = "''secret''"
      and redirect = "''https://app.example.com/cb''" and api_root = default_api_root
      and L = \<open>stub_library \<lparr>error = None :: string option,
                                 response_body = ''{"access_token": "tok123"}''\<rparr>\<close>]
  by (simp add: stub_library_def stub_loads_def del: get_access_token.simps)

text \<open>
  Lines 103 and 104 (and 134 and 135) change nothing: a response whose error is true
  does not come back from \<^verbatim>\<open>fetch\<close>, so the result is that of the function without
  these lines.
\<close>

lemma get_access_token_line_104:
  "fst (get_access_token L auth_code cid secret redirect api_root sent)
     = (case fetch L (access_token_request L auth_code cid secret redirect api_root) of
          Inl x \<Rightarrow> Inl x
        | Inr response \<Rightarrow>
            (case loads L (response_body response) of
               Inl x \<Rightarrow> Inl x
             | Inr v \<Rightarrow> getitem v ''access_token''))"
  by (auto simp: Let_def fetch_def split: option.splits sum.splits if_splits)

lemma get_client_credentials_line_135:
  "fst (get_client_credentials L client_id client_secret scopes api_root sent)
     = (case fetch L (client_credentials_request L client_id client_secret scopes api_root) of
          Inl x \<Rightarrow> Inl x
        | Inr response \<Rightarrow>
            (case loads L (response_body response) of
               Inl x \<Rightarrow> Inl x
             | Inr v \<Rightarrow> getitem v ''access_token''))"
  by (auto simp: Let_def fetch_def split: option.splits sum.splits if_splits)

text \<open>
  C6: a transport error does not end in the \<^verbatim>\<open>ValueError\<close> of line 104. When the response
  to the request of \<open>get_access_token\<close> carries an error, the client raises that error
  itself and \<open>get_access_token\<close> ends with it, unwrapped. No token is returned and the
  body is not decoded: the outcome is the same whatever the decoder is.
\<close>

theorem C6_error_not_wrapped:
  assumes "error (fetch_impl L (access_token_request L auth_code cid secret redirect api_root))
             = Some e"
    and "truth L e"
  shows "get_access_token L auth_code cid secret redirect api_root sent
           = (Inl (FetchError e),
              sent @ [access_token_request L auth_code cid secret redirect api_root])
         \<and> fst (get_access_token L auth_code cid secret redirect api_root sent)
             \<noteq> Inl (ValueError (Wrapped e))
         \<and> (\<forall>decoder. fst (get_access_token (L\<lparr>loads := decoder\<rparr>) auth_code cid secret
                               redirect api_root sent)
                          = Inl (FetchError e))"
proof -
  have "fst (get_access_token (L\<lparr>loads := decoder\<rparr>) auth_code cid secret redirect api_root sent)
          = Inl (FetchError e)" for decoder
  proof (rule get_access_token_error)
    show "error (fetch_impl (L\<lparr>loads := decoder\<rparr>)
            (access_token_request (L\<lparr>loads := decoder\<rparr>) auth_code cid secret redirect api_root))
          = Some e"
      using assms(1) by (simp add: access_token_request_def)
    show "truth (L\<lparr>loads := decoder\<rparr>) e"
      using assms(2) by simp
  qed
  moreover have "fst (get_access_token L auth_code cid secret redirect api_root sent)
          = Inl (FetchError e)"
    using assms by (rule get_access_token_error)
  ultimately show ?thesis
    using get_access_token_request [of L auth_code cid secret redirect api_root sent]
    by (simp add: prod_eq_iff del: get_access_token.simps)
qed

theorem C6_error_not_wrapped_witness:
  \<open>fst (get_access_token
          (stub_library \<lparr>error = Some ''HTTP 599: Timeout'',
                          response_body = ''{"access_token": "tok123"}''\<rparr>)
          ''code123'' ''abc'' ''secret'' ''https://app.example.com/cb'' default_api_root [])
     = Inl (FetchError ''HTTP 599: Timeout'')
   \<and> fst (get_access_token
          (stub_library \<lparr>error = Some ''HTTP 599: Timeout'',
                          response_body = ''{"access_token": "tok123"}''\<rparr>)
          ''code123'' ''abc'' ''secret'' ''https://app.example.com/cb'' default_api_root [])
     \<noteq> Inl (ValueError (Wrapped ''HTTP 599: Timeout''))\<close>
  using C6_error_not_wrapped [where e = "''HTTP 599: Timeout''" and sent = "[]"
      and auth_code = "''code123''" and cid = "''abc''" and secret = "''secret''"
      and redirect = "''https://app.example.com/cb''" and api_root = default_api_root
      and L = \<open>stub_library \<lparr>error = Some ''HTTP 599: Timeout'',
                                 response_body = ''{"access_token": "tok123"}''\<rparr>\<close>]
  by (simp add: stub_library_def del: get_access_token.simps)

text \<open>
  C7: \<open>get_client_credentials\<close> sends one POST to \<open>api_root\<close> followed by
  \<open>/oauth/authorize/client\<close>, whose body is the form encoding of a dict that has the key
  \<open>scope\<close> exactly when \<open>scopes\<close> is a non-empty list. With \<open>scopes\<close> absent or empty the
  dict holds \<open>grant_type = client_credentials\<close> and nothing else: the choices are not
  substituted.
\<close>

theorem C7_client_credentials_request:
  "\<exists>rq payload.
       snd (get_client_credentials L client_id client_secret scopes api_root sent) = sent @ [rq]
     \<and> url rq = api_root @ ''/oauth/authorize/client''
     \<and> http_method rq = ''POST''
     \<and> body rq = urlencode L payload
     \<and> payload ''grant_type'' = Some (Str ''client_credentials'')
     \<and> (''scope'' \<in> dom payload \<longleftrightarrow> scopes \<noteq> None \<and> scopes \<noteq> Some [])
     \<and> (scopes = None \<or> scopes = Some [] \<longrightarrow>
           payload = [''grant_type'' \<mapsto> Str ''client_credentials''])
     \<and> (\<forall>ss. scopes = Some ss \<and> ss \<noteq> [] \<longrightarrow>
           payload = [''grant_type'' \<mapsto> Str ''client_credentials'',
                      ''scope'' \<mapsto> StrList ss])"
proof (cases scopes)
  case None
  then show ?thesis by (simp add: Let_def client_credentials_request_def)
next
  case (Some ss)
  then show ?thesis by (cases ss) (simp_all add: Let_def client_credentials_request_def)
qed

theorem C7_client_credentials_request_witness:
  \<open>map body (snd (get_client_credentials
                    (stub_library \<lparr>error = None :: string option,
                                    response_body = ''{"access_token": "tok123"}''\<rparr>)
                    ''abc'' ''secret'' None default_api_root []))
     = [''grant_type=client_credentials'']
   \<and> map body (snd (get_client_credentials
                    (stub_library \<lparr>error = None :: string option,
                                    response_body = ''{"access_token": "tok123"}''\<rparr>)
                    ''abc'' ''secret'' (Some [''public'', ''private'']) default_api_root []))
     = [''grant_type=client_credentials&scope=['public', 'private']'']\<close>
proof -
  let ?L = \<open>stub_library \<lparr>error = None :: string option,
                           response_body = ''{"access_token": "tok123"}''\<rparr>\<close>
  from C7_client_credentials_request [of ?L "''abc''" "''secret''" None default_api_root "[]"]
  obtain rq where "snd (get_client_credentials ?L ''abc'' ''secret'' None default_api_root []) = [rq]"
    and "body rq = urlencode ?L [''grant_type'' \<mapsto> Str ''client_credentials'']"
    by auto
  then have absent: "map body (snd (get_client_credentials ?L ''abc'' ''secret'' None default_api_root []))
     = [''grant_type=client_credentials'']"
    by (simp add: stub_library_def stub_urlencode_def del: get_client_credentials.simps)
  from C7_client_credentials_request [of ?L "''abc''" "''secret''"
      "Some [''public'', ''private'']" default_api_root "[]"]
  obtain rq where "snd (get_client_credentials ?L ''abc'' ''secret'' (Some [''public'', ''private''])
                          default_api_root []) = [rq]"
    and "body rq = urlencode ?L [''grant_type'' \<mapsto> Str ''client_credentials'',
                                 ''scope'' \<mapsto> StrList [''public'', ''private'']]"
    by auto
  then have "map body (snd (get_client_credentials ?L ''abc'' ''secret''
                              (Some [''public'', ''private'']) default_api_root []))
     = [''grant_type=client_credentials&scope=['public', 'private']'']"
    by (simp add: stub_library_def stub_urlencode_def str_list_def
          del: get_client_credentials.simps)
  with absent show ?thesis
    by blast
qed

text \<open>
  C8: \<open>get_access_token\<close> sends exactly one request: a POST to \<open>api_root\<close> followed by
  \<open>/oauth/access_token\<close>, with the two headers \<open>Authorization\<close> (\<open>Basic\<close>, a space and
  the base64 encoding of \<open>cid:secret\<close>) and \<open>Accept\<close> (the versioned media type), with
  the form encoding of the dict of \<open>grant_type\<close>, \<open>code\<close> and \<open>redirect_uri\<close> as body,
  and with \<open>validate_cert\<close> set to true.
\<close>

theorem C8_token_request:
  "\<exists>rq. snd (get_access_token L auth_code cid secret redirect api_root sent) = sent @ [rq]
     \<and> url rq = api_root @ ''/oauth/access_token''
     \<and> http_method rq = ''POST''
     \<and> headers rq ''Authorization'' = Some (''Basic '' @ b64encode L (cid @ '':'' @ secret))
     \<and> headers rq ''Accept'' = Some ''application/vnd.vimeo.*+json; version=3.2''
     \<and> dom (headers rq) = {''Accept'', ''Authorization''}
     \<and> body rq = urlencode L [''grant_type'' \<mapsto> Str ''authorization_code'',
                               ''code'' \<mapsto> Str auth_code,
                               ''redirect_uri'' \<mapsto> Str redirect]
     \<and> validate_cert rq = Some True"
  by (auto simp: Let_def accept_header_def access_token_request_def)



text \<open>
  C10: the request of \<open>get_client_credentials\<close> is sent without the \<open>validate_cert\<close>
  keyword, whereas the request of \<open>get_access_token\<close> is sent with the keyword set to
  true.
\<close>

theorem C10_no_validate_cert:
  "map validate_cert
       (snd (get_client_credentials L client_id client_secret scopes api_root sent))
     = map validate_cert sent @ [None]
   \<and> map validate_cert
       (snd (get_access_token L' auth_code cid secret redirect api_root' sent'))
     = map validate_cert sent' @ [Some True]"
  by (simp add: Let_def access_token_request_def client_credentials_request_def)

end
